theory Spec2Isabelle
  imports Complex_Main "HOL-Library.Word" "HOL-Library.Sublist"
begin

section \<open>JavaScript values as the handlers see them\<close>

text \<open>
  A JavaScript string is a sequence of UTF-16 code units. String literals of the source
  are written \<open>lit ''...''\<close>.
\<close>

type_synonym jsstring = "16 word list"

definition lit :: "string \<Rightarrow> jsstring" where
  "lit cs = map (\<lambda>c. of_nat (of_char c)) cs"

text \<open>
  \<open>String.prototype.trim\<close> removes the code units of the ECMAScript productions
  WhiteSpace and LineTerminator from both ends: TAB, LF, VT, FF, CR, SPACE, NBSP, the
  space separators U+1680, U+2000..U+200A, U+202F, U+205F, U+3000, the separators U+2028
  and U+2029, and the byte order mark U+FEFF.
\<close>

definition is_js_whitespace :: "16 word \<Rightarrow> bool" where
  "is_js_whitespace c =
     (c = 0x0009 \<or> c = 0x000A \<or> c = 0x000B \<or> c = 0x000C \<or> c = 0x000D \<or> c = 0x0020
      \<or> c = 0x00A0 \<or> c = 0x1680 \<or> (0x2000 \<le> c \<and> c \<le> 0x200A)
      \<or> c = 0x2028 \<or> c = 0x2029 \<or> c = 0x202F \<or> c = 0x205F \<or> c = 0x3000 \<or> c = 0xFEFF)"

definition trim :: "jsstring \<Rightarrow> jsstring" where
  "trim s = rev (dropWhile is_js_whitespace (rev (dropWhile is_js_whitespace s)))"

text \<open>\<open>s.slice(a, b)\<close> for \<open>0 \<le> a \<le> b\<close>: the code units at positions \<open>a\<close> to \<open>b - 1\<close> that exist.\<close>

definition slice :: "nat \<Rightarrow> nat \<Rightarrow> jsstring \<Rightarrow> jsstring" where
  "slice a b s = take (b - a) (drop a s)"

text \<open>
  The decimal rendering of an integer, as a template literal prints \<open>Date.now()\<close> (a
  whole number of milliseconds, of at most sixteen digits).
\<close>

function digits :: "int \<Rightarrow> jsstring" where
  "digits n = (if n < 10 then [of_int (48 + n)] else digits (n div 10) @ [of_int (48 + n mod 10)])"
  by pat_completeness auto
termination
  by (relation "measure nat") auto

declare digits.simps [simp del]

definition show_int :: "int \<Rightarrow> jsstring" where
  "show_int i = (if i < 0 then lit ''-'' @ digits (- i) else digits i)"

text \<open>
  The values a parsed request body or query string can hold (\<open>express.urlencoded\<close> with
  \<open>extended: true\<close>, and \<open>express.json\<close>): a field that is absent reads as
  \<open>undefined\<close>. A number is given by the two things a handler can see of it: whether it
  is truthy (it is not \<open>0\<close>, \<open>-0\<close> or \<open>NaN\<close>) and the string it prints as. An object is
  the list of its own properties.
\<close>

datatype jsval =
    JUndefined
  | JNull
  | JBool bool
  | JNum bool jsstring
  | JStr jsstring
  | JArr "jsval list"
  | JObj "(jsstring \<times> jsval) list"

datatype js_error =
    TypeError
  | DbError
  | CastError
  | ValidationError
  | DuplicateKey

text \<open>Truthiness, as \<open>||\<close> tests it.\<close>

fun truthy :: "jsval \<Rightarrow> bool" where
  "truthy JUndefined = False"
| "truthy JNull = False"
| "truthy (JBool b) = b"
| "truthy (JNum t printed) = t"
| "truthy (JStr s) = (s \<noteq> [])"
| "truthy (JArr xs) = True"
| "truthy (JObj ps) = True"

definition js_or :: "jsval \<Rightarrow> jsval \<Rightarrow> jsval" where
  "js_or a b = (if truthy a then a else b)"

text \<open>\<open>s || d\<close> on strings: the empty string is the only falsy one.\<close>

definition str_or :: "jsstring \<Rightarrow> jsstring \<Rightarrow> jsstring" where
  "str_or s d = (if s \<noteq> [] then s else d)"

text \<open>
  \<open>v.toString()\<close>. On \<open>undefined\<close> and \<open>null\<close> the call throws; an array joins its
  elements with commas, printing \<open>null\<close> and \<open>undefined\<close> elements as nothing; an object
  parsed from a body prints as \<open>[object Object]\<close> unless it has an own property
  \<open>toString\<close>, which is never a function there, so the call throws.
\<close>

fun toString :: "jsval \<Rightarrow> js_error + jsstring"
  and join :: "jsval list \<Rightarrow> js_error + jsstring" where
  "toString JUndefined = Inl TypeError"
| "toString JNull = Inl TypeError"
| "toString (JBool b) = Inr (if b then lit ''true'' else lit ''false'')"
| "toString (JNum t printed) = Inr printed"
| "toString (JStr s) = Inr s"
| "toString (JArr xs) = join xs"
| "toString (JObj ps) =
     (if lit ''toString'' \<in> set (map fst ps) then Inl TypeError else Inr (lit ''[object Object]''))"
| "join [] = Inr []"
| "join (x # xs) =
     (case (if x = JUndefined \<or> x = JNull then Inr [] else toString x) of
        Inl err \<Rightarrow> Inl err
      | Inr a \<Rightarrow>
          (if xs = [] then Inr a
           else (case join xs of Inl err \<Rightarrow> Inl err | Inr b \<Rightarrow> Inr (a @ lit '','' @ b))))"

section \<open>Data model\<close>

text \<open>
  The objects of \<open>memoryItems\<close>, which are also what the view \<open>items/show\<close> receives:
  \<open>{ id, title, content, createdAtIso, updatedAtIso }\<close>.
\<close>

record item =
  item_id :: jsstring
  title :: jsstring
  content :: jsstring
  createdAtIso :: jsstring
  updatedAtIso :: jsstring

text \<open>A MongoDB ObjectId is twelve bytes.\<close>

type_synonym objectid = "96 word"

text \<open>
  Documents of the collections behind the models \<open>Item\<close> (\<open>models/Item.js\<close>) and
  \<open>Feedback\<close> (\<open>models/Feedback.js\<close>); \<open>timestamps: true\<close> adds \<open>createdAt\<close> and
  \<open>updatedAt\<close>, kept here as milliseconds since the epoch.
\<close>

record item_doc =
  doc_id :: objectid
  doc_title :: jsstring
  doc_content :: jsstring
  doc_createdAt :: int
  doc_updatedAt :: int

record feedback_doc =
  fb_id :: objectid
  fb_name :: jsstring
  fb_message :: jsstring
  fb_createdAt :: int
  fb_updatedAt :: int

text \<open>The rows the list views receive.\<close>

record item_row =
  row_id :: jsstring
  row_title :: jsstring
  row_updatedAtIso :: jsstring

record edit_item =
  edit_id :: jsstring
  edit_title :: jsstring
  edit_content :: jsstring

record feedback_row =
  row_name :: jsstring
  row_message :: jsstring
  row_createdAtIso :: jsstring

text \<open>
  The module-level state of \<open>index.js\<close> (\<open>useMongoDB\<close>, \<open>memoryItems\<close>,
  \<open>memoryFeedback\<close>) together with the two collections of the database.
\<close>

record state =
  useMongoDB :: bool
  memoryItems :: "item list"
  memoryFeedback :: "feedback_row list"
  items_collection :: "item_doc list"
  feedback_collection :: "feedback_doc list"

text \<open>
  What the handlers take from the runtime and the libraries and what does not change between
  requests: how Mongoose casts a string to an ObjectId (\<open>None\<close>: the cast fails), how an
  ObjectId and a date print, and \<open>process.env.NODE_ENV\<close>.
\<close>

record platform =
  castObjectId :: "jsstring \<Rightarrow> objectid option"
  oidToString :: "objectid \<Rightarrow> jsstring"
  toISOString :: "int \<Rightarrow> jsstring"
  NODE_ENV :: jsval

text \<open>
  What one request reads from its surroundings: \<open>Date.now()\<close>,
  \<open>Math.random().toString(36)\<close>, the two \<open>new Date()\<close> of a memory item,
  \<open>process.uptime()\<close>, whether the database call of this request is rejected (no
  connection, a timeout), and the ObjectId and the time Mongoose gives a new document.
\<close>

record env =
  date_now :: int
  random36 :: jsstring
  new_date1 :: int
  new_date2 :: int
  uptime :: real
  db_fails :: bool
  new_oid :: objectid
  db_clock :: int

section \<open>The Mongoose calls\<close>

text \<open>
  Each call is rejected when the database fails, and before that when its argument does not
  pass the schema: \<open>title\<close> and \<open>message\<close> are \<open>required\<close> and all strings but
  \<open>content\<close> are trimmed; an id that does not cast to an ObjectId is a \<open>CastError\<close>.
  \<open>_id\<close> is a unique key.
\<close>

definition Item_create ::
  "env \<Rightarrow> item_doc list \<Rightarrow> jsstring \<Rightarrow> jsstring \<Rightarrow> js_error + (item_doc \<times> item_doc list)" where
  "Item_create e docs t c =
     (if trim t = [] then Inl ValidationError
      else if db_fails e then Inl DbError
      else if new_oid e \<in> set (map doc_id docs) then Inl DuplicateKey
      else (let d = \<lparr>doc_id = new_oid e, doc_title = trim t, doc_content = c,
                      doc_createdAt = db_clock e, doc_updatedAt = db_clock e\<rparr>
            in Inr (d, docs @ [d])))"

text \<open>\<open>Item.find({}).sort({ updatedAt: -1 })\<close>; the database fixes no order among equal keys.\<close>

definition Item_find :: "env \<Rightarrow> item_doc list \<Rightarrow> js_error + item_doc list" where
  "Item_find e docs = (if db_fails e then Inl DbError else Inr (rev (sort_key doc_updatedAt docs)))"

definition Item_findById ::
  "platform \<Rightarrow> env \<Rightarrow> item_doc list \<Rightarrow> jsstring \<Rightarrow> js_error + item_doc option" where
  "Item_findById p e docs i =
     (case castObjectId p i of
        None \<Rightarrow> Inl CastError
      | Some k \<Rightarrow> (if db_fails e then Inl DbError else Inr (find (\<lambda>d. doc_id d = k) docs)))"

fun replace_first :: "('a \<Rightarrow> bool) \<Rightarrow> 'a \<Rightarrow> 'a list \<Rightarrow> 'a list" where
  "replace_first P y [] = []"
| "replace_first P y (x # xs) = (if P x then y # xs else x # replace_first P y xs)"

fun remove_first :: "('a \<Rightarrow> bool) \<Rightarrow> 'a list \<Rightarrow> 'a list" where
  "remove_first P [] = []"
| "remove_first P (x # xs) = (if P x then xs else x # remove_first P xs)"

text \<open>
  \<open>Item.findByIdAndUpdate(id, { $set: { title, content } }, { new: true })\<close>. The title
  is a string or \<open>undefined\<close> (\<open>None\<close>); Mongoose (from version 6, the one whose
  connection options the source uses) removes a key whose value is \<open>undefined\<close> from the
  update, so the stored title stays. The update stamps \<open>updatedAt\<close>; no validator runs.
\<close>

definition Item_findByIdAndUpdate ::
  "platform \<Rightarrow> env \<Rightarrow> item_doc list \<Rightarrow> jsstring \<Rightarrow> jsstring option \<Rightarrow> jsstring
     \<Rightarrow> js_error + (item_doc option \<times> item_doc list)" where
  "Item_findByIdAndUpdate p e docs i t c =
     (case castObjectId p i of
        None \<Rightarrow> Inl CastError
      | Some k \<Rightarrow>
          (if db_fails e then Inl DbError
           else (case find (\<lambda>d. doc_id d = k) docs of
                   None \<Rightarrow> Inr (None, docs)
                 | Some d \<Rightarrow>
                     (let d' = d\<lparr>doc_title := (case t of None \<Rightarrow> doc_title d | Some t' \<Rightarrow> trim t'),
                                  doc_content := c, doc_updatedAt := db_clock e\<rparr>
                      in Inr (Some d', replace_first (\<lambda>d. doc_id d = k) d' docs)))))"

definition Item_findByIdAndDelete ::
  "platform \<Rightarrow> env \<Rightarrow> item_doc list \<Rightarrow> jsstring \<Rightarrow> js_error + (item_doc option \<times> item_doc list)" where
  "Item_findByIdAndDelete p e docs i =
     (case castObjectId p i of
        None \<Rightarrow> Inl CastError
      | Some k \<Rightarrow>
          (if db_fails e then Inl DbError
           else (case find (\<lambda>d. doc_id d = k) docs of
                   None \<Rightarrow> Inr (None, docs)
                 | Some d \<Rightarrow> Inr (Some d, remove_first (\<lambda>d. doc_id d = k) docs))))"

definition Feedback_create ::
  "env \<Rightarrow> feedback_doc list \<Rightarrow> jsstring \<Rightarrow> jsstring \<Rightarrow> js_error + (feedback_doc \<times> feedback_doc list)" where
  "Feedback_create e docs n m =
     (if trim m = [] then Inl ValidationError
      else if db_fails e then Inl DbError
      else if new_oid e \<in> set (map fb_id docs) then Inl DuplicateKey
      else (let d = \<lparr>fb_id = new_oid e, fb_name = trim n, fb_message = trim m,
                      fb_createdAt = db_clock e, fb_updatedAt = db_clock e\<rparr>
            in Inr (d, docs @ [d])))"

definition Feedback_find :: "env \<Rightarrow> feedback_doc list \<Rightarrow> js_error + feedback_doc list" where
  "Feedback_find e docs = (if db_fails e then Inl DbError else Inr (rev (sort_key fb_createdAt docs)))"

section \<open>Responses\<close>

text \<open>The locals a view is rendered with, next to its \<open>title\<close>.\<close>

datatype view_data =
    NoData
  | NameEnv jsval jsval
  | Name jsstring
  | Rows "item_row list"
  | MemItems "item list"
  | ItemData item
  | EditData edit_item
  | FeedbackRows "feedback_row list"
  | Url jsstring

text \<open>
  What a handler does with \<open>res\<close>: \<open>Render status view title data\<close>, a redirect, a
  plain body, the JSON object of \<open>/api/time\<close> (\<open>nowIso\<close>, \<open>uptimeSeconds\<close>), an empty
  response; \<open>Uncaught\<close> is an exception that leaves the handler, with no response written.
\<close>

datatype response =
    Render nat jsstring jsstring view_data
  | Redirect jsstring
  | Send nat jsstring
  | Json jsstring real
  | End nat
  | Uncaught js_error

definition not_found :: "jsstring \<Rightarrow> response" where
  "not_found url = Render 404 (lit ''404'') (lit ''Not Found'') (Url url)"

section \<open>The route handlers of index.js\<close>

definition get_about :: "state \<Rightarrow> response \<times> state" where
  "get_about s = (Render 200 (lit ''about'') (lit ''About'') NoData, s)"

definition get_favicon :: "state \<Rightarrow> response \<times> state" where
  "get_favicon s = (End 204, s)"

definition get_root :: "platform \<Rightarrow> state \<Rightarrow> jsval \<Rightarrow> response \<times> state" where
  "get_root p s name =
     (Render 200 (lit ''index'') (lit ''Welcome'')
        (NameEnv (js_or name (JStr (lit ''Visitor''))) (js_or (NODE_ENV p) (JStr (lit ''development'')))), s)"

definition get_user :: "state \<Rightarrow> jsstring \<Rightarrow> response \<times> state" where
  "get_user s name = (Render 200 (lit ''user'') (lit ''User Page'') (Name name), s)"

definition get_api_time :: "platform \<Rightarrow> env \<Rightarrow> state \<Rightarrow> response \<times> state" where
  "get_api_time p e s = (Json (toISOString p (new_date1 e)) (uptime e), s)"

definition get_items :: "platform \<Rightarrow> env \<Rightarrow> state \<Rightarrow> response \<times> state" where
  "get_items p e s =
     (if useMongoDB s then
        (case Item_find e (items_collection s) of
           Inr list \<Rightarrow>
             (Render 200 (lit ''items/index'') (lit ''Items'')
                (Rows (map (\<lambda>it. \<lparr>row_id = oidToString p (doc_id it), row_title = doc_title it,
                                   row_updatedAtIso = toISOString p (doc_updatedAt it)\<rparr>) list)), s)
         | Inl err \<Rightarrow> (Render 200 (lit ''items/index'') (lit ''Items'') (MemItems (memoryItems s)), s))
      else (Render 200 (lit ''items/index'') (lit ''Items'') (MemItems (memoryItems s)), s))"

definition get_items_new :: "state \<Rightarrow> response \<times> state" where
  "get_items_new s = (Render 200 (lit ''items/new'') (lit ''New Item'') NoData, s)"

text \<open>The id \<open>POST /items\<close> gives a memory item: \<open>`${Date.now()}-${Math.random().toString(36).slice(2, 8)}`\<close>.\<close>

definition memory_id :: "env \<Rightarrow> jsstring" where
  "memory_id e = show_int (date_now e) @ lit ''-'' @ slice 2 8 (random36 e)"

text \<open>
  The memory branch of \<open>POST /items\<close>, which the source writes twice (in the \<open>catch\<close> and
  in the \<open>else\<close>): build the item, push it, redirect to it.
\<close>

definition push_memory_item :: "platform \<Rightarrow> env \<Rightarrow> state \<Rightarrow> jsstring \<Rightarrow> jsstring \<Rightarrow> response \<times> state" where
  "push_memory_item p e s t c =
     (let item = \<lparr>item_id = memory_id e,
                   title = t, content = c,
                   createdAtIso = toISOString p (new_date1 e),
                   updatedAtIso = toISOString p (new_date2 e)\<rparr>
      in (Redirect (lit ''/items/'' @ item_id item), s\<lparr>memoryItems := memoryItems s @ [item]\<rparr>))"

definition post_items :: "platform \<Rightarrow> env \<Rightarrow> state \<Rightarrow> jsval \<Rightarrow> jsval \<Rightarrow> response \<times> state" where
  "post_items p e s title_field content_field =
     (case toString (js_or title_field (JStr (lit ''Untitled''))) of
        Inl err \<Rightarrow> (Uncaught err, s)
      | Inr ts \<Rightarrow>
          (case toString (js_or content_field (JStr [])) of
             Inl err \<Rightarrow> (Uncaught err, s)
           | Inr cs \<Rightarrow>
               (let t = str_or (trim ts) (lit ''Untitled'') in
                if useMongoDB s then
                  (case Item_create e (items_collection s) t cs of
                     Inr (created, docs) \<Rightarrow>
                       (Redirect (lit ''/items/'' @ oidToString p (doc_id created)),
                        s\<lparr>items_collection := docs\<rparr>)
                   | Inl err \<Rightarrow> push_memory_item p e s t cs)
                else push_memory_item p e s t cs)))"

text \<open>The memory branch of \<open>GET /items/:id\<close>, also written twice in the source.\<close>

definition show_memory_item :: "state \<Rightarrow> jsstring \<Rightarrow> jsstring \<Rightarrow> response \<times> state" where
  "show_memory_item s url i =
     (case find (\<lambda>it. item_id it = i) (memoryItems s) of
        None \<Rightarrow> (not_found url, s)
      | Some item \<Rightarrow> (Render 200 (lit ''items/show'') (title item) (ItemData item), s))"

definition get_item :: "platform \<Rightarrow> env \<Rightarrow> state \<Rightarrow> jsstring \<Rightarrow> jsstring \<Rightarrow> response \<times> state" where
  "get_item p e s url i =
     (if useMongoDB s then
        (case Item_findById p e (items_collection s) i of
           Inr None \<Rightarrow> (not_found url, s)
         | Inr (Some it) \<Rightarrow>
             (Render 200 (lit ''items/show'') (doc_title it)
                (ItemData \<lparr>item_id = oidToString p (doc_id it), title = doc_title it,
                           content = doc_content it,
                           createdAtIso = toISOString p (doc_createdAt it),
                           updatedAtIso = toISOString p (doc_updatedAt it)\<rparr>), s)
         | Inl err \<Rightarrow> show_memory_item s url i)
      else show_memory_item s url i)"

definition get_item_edit :: "platform \<Rightarrow> env \<Rightarrow> state \<Rightarrow> jsstring \<Rightarrow> jsstring \<Rightarrow> response \<times> state" where
  "get_item_edit p e s url i =
     (case Item_findById p e (items_collection s) i of
        Inl err \<Rightarrow> (Uncaught err, s)
      | Inr None \<Rightarrow> (not_found url, s)
      | Inr (Some it) \<Rightarrow>
          (Render 200 (lit ''items/edit'') (lit ''Edit: '' @ doc_title it)
             (EditData \<lparr>edit_id = oidToString p (doc_id it), edit_title = doc_title it,
                        edit_content = doc_content it\<rparr>), s))"

definition put_item ::
  "platform \<Rightarrow> env \<Rightarrow> state \<Rightarrow> jsstring \<Rightarrow> jsstring \<Rightarrow> jsval \<Rightarrow> jsval \<Rightarrow> response \<times> state" where
  "put_item p e s url i title_field content_field =
     (case toString (js_or title_field (JStr [])) of
        Inl err \<Rightarrow> (Uncaught err, s)
      | Inr ts \<Rightarrow>
          (case toString (js_or content_field (JStr [])) of
             Inl err \<Rightarrow> (Uncaught err, s)
           | Inr cs \<Rightarrow>
               (case Item_findByIdAndUpdate p e (items_collection s) i
                       (if trim ts \<noteq> [] then Some (trim ts) else None) cs of
                  Inl err \<Rightarrow> (Uncaught err, s)
                | Inr (None, docs) \<Rightarrow> (not_found url, s\<lparr>items_collection := docs\<rparr>)
                | Inr (Some updated, docs) \<Rightarrow>
                    (Redirect (lit ''/items/'' @ oidToString p (doc_id updated)),
                     s\<lparr>items_collection := docs\<rparr>))))"

definition delete_item :: "platform \<Rightarrow> env \<Rightarrow> state \<Rightarrow> jsstring \<Rightarrow> jsstring \<Rightarrow> response \<times> state" where
  "delete_item p e s url i =
     (case Item_findByIdAndDelete p e (items_collection s) i of
        Inl err \<Rightarrow> (Uncaught err, s)
      | Inr (None, docs) \<Rightarrow> (not_found url, s\<lparr>items_collection := docs\<rparr>)
      | Inr (Some deleted, docs) \<Rightarrow> (Redirect (lit ''/items''), s\<lparr>items_collection := docs\<rparr>))"

definition get_feedback :: "platform \<Rightarrow> env \<Rightarrow> state \<Rightarrow> response \<times> state" where
  "get_feedback p e s =
     (case Feedback_find e (feedback_collection s) of
        Inl err \<Rightarrow> (Uncaught err, s)
      | Inr all \<Rightarrow>
          (Render 200 (lit ''feedback'') (lit ''Feedback'')
             (FeedbackRows (map (\<lambda>f. \<lparr>row_name = str_or (fb_name f) (lit ''Anonymous''),
                                       row_message = fb_message f,
                                       row_createdAtIso = toISOString p (fb_createdAt f)\<rparr>) all)), s))"

definition post_feedback :: "env \<Rightarrow> state \<Rightarrow> jsval \<Rightarrow> jsval \<Rightarrow> response \<times> state" where
  "post_feedback e s name_field message_field =
     (case toString (js_or message_field (JStr [])) of
        Inl err \<Rightarrow> (Uncaught err, s)
      | Inr ms \<Rightarrow>
          (let trimmedMessage = trim ms in
           if length trimmedMessage > 0 then
             (case toString (js_or name_field (JStr (lit ''Anonymous''))) of
                Inl err \<Rightarrow> (Uncaught err, s)
              | Inr ns \<Rightarrow>
                  (case Feedback_create e (feedback_collection s)
                          (str_or (trim ns) (lit ''Anonymous'')) trimmedMessage of
                     Inl err \<Rightarrow> (Uncaught err, s)
                   | Inr (created, docs) \<Rightarrow>
                       (Redirect (lit ''/feedback''), s\<lparr>feedback_collection := docs\<rparr>)))
           else (Redirect (lit ''/feedback''), s)))"

definition get_health :: "state \<Rightarrow> response \<times> state" where
  "get_health s = (Send 200 (lit ''OK''), s)"

text \<open>
  A request after the middleware (body parsers, \<open>method-override\<close>) and the router have
  done their work: the handler that runs, with the fields it reads from \<open>req.params\<close>,
  \<open>req.query\<close> and \<open>req.body\<close>, and \<open>req.originalUrl\<close>. \<open>GET /items/new\<close> is
  registered before \<open>GET /items/:id\<close> and is a route of its own; \<open>NoRoute\<close> is the final
  catch-all.
\<close>

datatype route =
    GetAbout
  | GetFavicon
  | GetRoot jsval
  | GetUser jsstring
  | GetApiTime
  | GetItems
  | GetItemsNew
  | PostItems jsval jsval
  | GetItem jsstring
  | GetItemEdit jsstring
  | PutItem jsstring jsval jsval
  | DeleteItem jsstring
  | GetFeedback
  | PostFeedback jsval jsval
  | GetHealth
  | NoRoute

record request =
  originalUrl :: jsstring
  route :: route

definition handle :: "platform \<Rightarrow> env \<Rightarrow> request \<Rightarrow> state \<Rightarrow> response \<times> state" where
  "handle p e rq s =
     (case route rq of
        GetAbout \<Rightarrow> get_about s
      | GetFavicon \<Rightarrow> get_favicon s
      | GetRoot name \<Rightarrow> get_root p s name
      | GetUser name \<Rightarrow> get_user s name
      | GetApiTime \<Rightarrow> get_api_time p e s
      | GetItems \<Rightarrow> get_items p e s
      | GetItemsNew \<Rightarrow> get_items_new s
      | PostItems t c \<Rightarrow> post_items p e s t c
      | GetItem i \<Rightarrow> get_item p e s (originalUrl rq) i
      | GetItemEdit i \<Rightarrow> get_item_edit p e s (originalUrl rq) i
      | PutItem i t c \<Rightarrow> put_item p e s (originalUrl rq) i t c
      | DeleteItem i \<Rightarrow> delete_item p e s (originalUrl rq) i
      | GetFeedback \<Rightarrow> get_feedback p e s
      | PostFeedback n m \<Rightarrow> post_feedback e s n m
      | GetHealth \<Rightarrow> get_health s
      | NoRoute \<Rightarrow> (not_found (originalUrl rq), s))"

text \<open>
  A sequence of requests, each with its own readings, served one after the other by one
  process. The handlers are \<open>async\<close> and nothing catches what they throw: an exception
  that leaves a handler is an unhandled rejection, which ends the process, and the module
  state is gone with it (\<open>None\<close>).
\<close>

fun serve :: "platform \<Rightarrow> (env \<times> request) list \<Rightarrow> state \<Rightarrow> state option" where
  "serve p [] s = Some s"
| "serve p ((e, rq) # rest) s =
     (case handle p e rq s of
        (Uncaught err, s') \<Rightarrow> None
      | (r, s') \<Rightarrow> serve p rest s')"

section \<open>Blank form fields\<close>

text \<open>
  A field is blank when it is absent, empty, or holds nothing but white space.
\<close>

definition blank :: "jsval \<Rightarrow> bool" where
  "blank v = (case v of JUndefined \<Rightarrow> True | JStr s \<Rightarrow> list_all is_js_whitespace s | _ \<Rightarrow> False)"

section \<open>A platform and inputs to run the handlers on\<close>

text \<open>
  ObjectIds that cast from their 24 hexadecimal digits and print as them, and dates that
  print as \<open>Date.prototype.toISOString\<close> prints them.
\<close>

definition hex_digit :: "16 word \<Rightarrow> objectid option" where
  "hex_digit c =
     (if 0x30 \<le> c \<and> c \<le> 0x39 then Some (ucast c - 48)
      else if 0x61 \<le> c \<and> c \<le> 0x66 then Some (ucast c - 87)
      else if 0x41 \<le> c \<and> c \<le> 0x46 then Some (ucast c - 55)
      else None)"

fun hex_value :: "objectid \<Rightarrow> jsstring \<Rightarrow> objectid option" where
  "hex_value acc [] = Some acc"
| "hex_value acc (c # cs) =
     (case hex_digit c of None \<Rightarrow> None | Some d \<Rightarrow> hex_value (16 * acc + d) cs)"

definition hex_cast :: "jsstring \<Rightarrow> objectid option" where
  "hex_cast s = (if length s = 24 then hex_value 0 s else None)"

definition hex_char :: "objectid \<Rightarrow> 16 word" where
  "hex_char d = (if d < 10 then ucast d + 48 else ucast d + 87)"

fun hex_string :: "nat \<Rightarrow> objectid \<Rightarrow> jsstring" where
  "hex_string 0 k = []"
| "hex_string (Suc w) k = hex_string w (k div 16) @ [hex_char (k mod 16)]"

definition pad :: "nat \<Rightarrow> int \<Rightarrow> jsstring" where
  "pad w n = replicate (w - length (digits n)) 0x30 @ digits n"

definition iso_string :: "int \<Rightarrow> jsstring" where
  "iso_string t =
     (let day = t div 86400000; ms = t mod 86400000;
          z = day + 719468; era = z div 146097; doe = z mod 146097;
          yoe = (doe - doe div 1460 + doe div 36524 - doe div 146096) div 365;
          doy = doe - (365 * yoe + yoe div 4 - yoe div 100);
          mp = (5 * doy + 2) div 153;
          d = doy - (153 * mp + 2) div 5 + 1;
          m = (if mp < 10 then mp + 3 else mp - 9);
          y = yoe + era * 400 + (if m \<le> 2 then 1 else 0)
      in (if 0 \<le> y \<and> y \<le> 9999 then pad 4 y
          else (if y < 0 then lit ''-'' else lit ''+'') @ pad 6 (abs y))
         @ lit ''-'' @ pad 2 m @ lit ''-'' @ pad 2 d @ lit ''T''
         @ pad 2 (ms div 3600000) @ lit '':'' @ pad 2 (ms div 60000 mod 60) @ lit '':''
         @ pad 2 (ms div 1000 mod 60) @ lit ''.'' @ pad 3 (ms mod 1000) @ lit ''Z'')"

definition example_platform :: platform where
  "example_platform =
     \<lparr>castObjectId = hex_cast, oidToString = hex_string 24,
      toISOString = iso_string, NODE_ENV = JUndefined\<rparr>"

text \<open>The readings of a request served while the database answers, and of one served while it does not.\<close>

definition example_env :: env where
  "example_env =
     \<lparr>date_now = 1730541296789, random36 = lit ''0.4fzyo82mvyr'',
      new_date1 = 1730541296789, new_date2 = 1730541296790, uptime = 12,
      db_fails = False, new_oid = 0x6725f3b0a1b2c3d4e5f60718, db_clock = 1730541296800\<rparr>"

definition outage_env :: env where
  "outage_env = example_env\<lparr>db_fails := True\<rparr>"

text \<open>
  The state right after start-up without \<open>MONGODB_URI\<close>, and a state with a connection,
  one stored item and one feedback entry.
\<close>

definition initial_state :: state where
  "initial_state =
     \<lparr>useMongoDB = False, memoryItems = [], memoryFeedback = [],
      items_collection = [], feedback_collection = []\<rparr>"

definition stored_doc :: item_doc where
  "stored_doc =
     \<lparr>doc_id = 0x507f1f77bcf86cd799439011, doc_title = lit ''Groceries'',
      doc_content = lit ''milk'', doc_createdAt = 1730000000000, doc_updatedAt = 1730000000000\<rparr>"

definition stored_feedback :: feedback_doc where
  "stored_feedback =
     \<lparr>fb_id = 0x507f1f77bcf86cd799439012, fb_name = lit ''Ada'',
      fb_message = lit ''nice'', fb_createdAt = 1730000000000, fb_updatedAt = 1730000000000\<rparr>"

definition connected_state :: state where
  "connected_state =
     \<lparr>useMongoDB = True, memoryItems = [], memoryFeedback = [],
      items_collection = [stored_doc], feedback_collection = [stored_feedback]\<rparr>"

text \<open>
  Two requests served in the same millisecond whose random numbers print with the same
  first six digits in base 36 (\<open>0.4fzyo82mvyr\<close> and \<open>0.4fzyo8k3m1x\<close>): the item the
  first one stored, the state that holds it, the readings of the second one and the item
  it builds.
\<close>

definition first_item :: item where
  "first_item =
     \<lparr>item_id = lit ''1730541296789-4fzyo8'', title = lit ''First'', content = lit ''one'',
      createdAtIso = lit ''2024-11-02T09:54:56.789Z'', updatedAtIso = lit ''2024-11-02T09:54:56.789Z''\<rparr>"

definition second_item :: item where
  "second_item =
     \<lparr>item_id = lit ''1730541296789-4fzyo8'', title = lit ''Second'', content = lit ''two'',
      createdAtIso = lit ''2024-11-02T09:54:56.789Z'', updatedAtIso = lit ''2024-11-02T09:54:56.789Z''\<rparr>"

definition memory_state :: state where
  "memory_state = initial_state\<lparr>memoryItems := [first_item]\<rparr>"

definition colliding_env :: env where
  "colliding_env =
     example_env\<lparr>random36 := lit ''0.4fzyo8k3m1x'', new_date2 := 1730541296789\<rparr>"

text \<open>The readings of a request served a little later.\<close>

definition later_env :: env where
  "later_env =
     example_env\<lparr>date_now := 1730541297000, random36 := lit ''0.9k2m7qx1abc'',
       new_date1 := 1730541297000, new_date2 := 1730541297000\<rparr>"

section \<open>Auxiliary facts\<close>

subsection \<open>Trimming\<close>

lemma dropWhile_all: "list_all P xs \<Longrightarrow> dropWhile P xs = []"
  by (induction xs) auto

lemma dropWhile_id: "xs = [] \<or> \<not> P (hd xs) \<Longrightarrow> dropWhile P xs = xs"
  by (cases xs) auto

lemma hd_dropWhile_not: "dropWhile P xs \<noteq> [] \<Longrightarrow> \<not> P (hd (dropWhile P xs))"
  by (simp add: hd_dropWhile)

lemma trim_whitespace: "list_all is_js_whitespace s \<Longrightarrow> trim s = []"
  by (simp add: trim_def dropWhile_all)

lemma trim_idem: "trim (trim s) = trim s"
proof -
  let ?W = is_js_whitespace
  let ?a = "dropWhile ?W s"
  let ?b = "dropWhile ?W (rev ?a)"
  have b: "?b = [] \<or> \<not> ?W (hd ?b)" using hd_dropWhile_not by blast
  have "dropWhile ?W (rev ?b) = rev ?b"
  proof (cases "?b = []")
    case True show ?thesis unfolding True by simp
  next
    case False
    then have ne: "rev ?a \<noteq> []" by (metis dropWhile.simps(1))
    have "\<exists>ys. rev ?a = ys @ ?b" by (metis takeWhile_dropWhile_id)
    then obtain ys where ys: "rev ?a = ys @ ?b" ..
    then have "?a = rev ?b @ rev ys" by (metis rev_append rev_rev_ident)
    moreover have "?a \<noteq> []" using ne by simp
    then have "\<not> ?W (hd ?a)" by (rule hd_dropWhile_not)
    ultimately have "\<not> ?W (hd (rev ?b))" using False by (metis hd_append2 rev_is_Nil_conv)
    then show ?thesis by (simp add: dropWhile_id)
  qed
  moreover have "dropWhile ?W ?b = ?b" using b by (rule dropWhile_id)
  ultimately show ?thesis by (simp add: trim_def)
qed

lemma trim_Untitled: "trim (lit ''Untitled'') = lit ''Untitled''"
  by (simp add: trim_def lit_def is_js_whitespace_def)

lemma trim_Anonymous: "trim (lit ''Anonymous'') = lit ''Anonymous''"
  by (simp add: trim_def lit_def is_js_whitespace_def)

lemma lit_nonempty: "lit ''Untitled'' \<noteq> []" "lit ''Anonymous'' \<noteq> []"
  by (simp_all add: lit_def)

lemma blank_default:
  assumes "blank v" and "trim d = d" and "d \<noteq> []"
  shows "\<exists>ts. toString (js_or v (JStr d)) = Inr ts \<and> str_or (trim ts) d = d"
  using assms by (cases v) (auto simp: blank_def js_or_def str_or_def trim_whitespace)

lemma blank_empty_default:
  assumes "blank v"
  shows "\<exists>ts. toString (js_or v (JStr [])) = Inr ts \<and> trim ts = []"
  using assms by (cases v) (auto simp: blank_def js_or_def trim_whitespace)

subsection \<open>Lists\<close>

lemma find_append_Some: "find P xs = Some x \<Longrightarrow> find P (xs @ ys) = Some x"
  by (induction xs) auto

lemma find_append_fresh: "\<forall>x\<in>set xs. \<not> P x \<Longrightarrow> P y \<Longrightarrow> find P (xs @ [y]) = Some y"
  by (induction xs) auto

lemma find_replace_first: "find P xs = Some x \<Longrightarrow> P y \<Longrightarrow> find P (replace_first P y xs) = Some y"
  by (induction xs) auto

subsection \<open>What a request leaves alone\<close>

text \<open>
  No handler changes \<open>useMongoDB\<close> or \<open>memoryFeedback\<close>, and the memory items and the
  feedback collection only ever grow at the end.
\<close>

lemma post_items_cases:
  "(\<exists>err. post_items p e s t c = (Uncaught err, s))
   \<or> (\<exists>r d. post_items p e s t c = (r, s\<lparr>items_collection := items_collection s @ [d]\<rparr>))
   \<or> (\<exists>r m. post_items p e s t c = (r, s\<lparr>memoryItems := memoryItems s @ [m]\<rparr>))"
  by (auto simp: post_items_def push_memory_item_def Item_create_def Let_def
           split: sum.splits prod.splits if_splits)

lemma handle_frame:
  "useMongoDB (snd (handle p e rq s)) = useMongoDB s
   \<and> prefix (memoryItems s) (memoryItems (snd (handle p e rq s)))
   \<and> memoryFeedback (snd (handle p e rq s)) = memoryFeedback s
   \<and> prefix (feedback_collection s) (feedback_collection (snd (handle p e rq s)))"
proof (cases "route rq")
  case (PostItems t c)
  then show ?thesis using post_items_cases [of p e s t c] by (auto simp: handle_def)
next
  case (PostFeedback n m)
  then show ?thesis
    by (auto simp: handle_def post_feedback_def Feedback_create_def Let_def
             split: sum.splits prod.splits if_splits)
next
  case (PutItem i t c)
  then show ?thesis
    by (auto simp: handle_def put_item_def split: sum.splits prod.splits option.splits)
next
  case (DeleteItem i)
  then show ?thesis
    by (auto simp: handle_def delete_item_def split: sum.splits prod.splits option.splits)
next
  case (GetItem i)
  then show ?thesis
    by (auto simp: handle_def get_item_def show_memory_item_def split: sum.splits option.splits)
next
  case (GetItemEdit i)
  then show ?thesis
    by (auto simp: handle_def get_item_edit_def split: sum.splits option.splits)
qed (auto simp: handle_def get_about_def get_favicon_def get_root_def get_user_def get_api_time_def
       get_items_def get_items_new_def get_feedback_def get_health_def split: sum.splits)

lemma serve_frame:
  "serve p rqs s = Some s' \<Longrightarrow>
     useMongoDB s' = useMongoDB s \<and> prefix (memoryItems s) (memoryItems s')"
proof (induction rqs arbitrary: s)
  case Nil
  then show ?case by simp
next
  case (Cons a rqs)
  obtain e rq where a: "a = (e, rq)" by (cases a)
  from Cons.prems have "serve p rqs (snd (handle p e rq s)) = Some s'"
    unfolding a by (auto split: prod.splits response.splits)
  from Cons.IH [OF this] handle_frame [of p e rq s]
  show ?case by (auto intro: prefix_order.trans)
qed

section \<open>The claims\<close>

subsection \<open>C1: database errors and the memory fallback\<close>

text \<open>
  C1 says that every handler that calls the database catches the error and serves the request
  from the memory arrays. \<open>GET /items\<close>, \<open>POST /items\<close> and \<open>GET /items/:id\<close> do
  (the first line below); \<open>POST /feedback\<close>, \<open>GET /feedback\<close>, \<open>GET /items/:id/edit\<close>,
  \<open>PUT /items/:id\<close> and \<open>DELETE /items/:id\<close> have no \<open>try\<close>: while the database does
  not answer, the error leaves the handler, nothing is read from or written to
  \<open>memoryItems\<close> or \<open>memoryFeedback\<close>, and no response is written.
\<close>

theorem database_error_escapes:
  "get_items example_platform outage_env connected_state
     = (Render 200 (lit ''items/index'') (lit ''Items'') (MemItems []), connected_state)
   \<and> post_feedback outage_env initial_state (JStr (lit ''Ada'')) (JStr (lit ''hello''))
     = (Uncaught DbError, initial_state)
   \<and> get_feedback example_platform outage_env initial_state = (Uncaught DbError, initial_state)
   \<and> get_item_edit example_platform outage_env connected_state
        (lit ''/items/507f1f77bcf86cd799439011/edit'') (lit ''507f1f77bcf86cd799439011'')
     = (Uncaught DbError, connected_state)
   \<and> put_item example_platform outage_env connected_state
        (lit ''/items/507f1f77bcf86cd799439011'') (lit ''507f1f77bcf86cd799439011'')
        (JStr (lit ''Shopping'')) (JStr (lit ''bread''))
     = (Uncaught DbError, connected_state)
   \<and> delete_item example_platform outage_env connected_state
        (lit ''/items/507f1f77bcf86cd799439011'') (lit ''507f1f77bcf86cd799439011'')
     = (Uncaught DbError, connected_state)"
  by code_simp


subsection \<open>C2: a blank title is stored as Untitled\<close>

text \<open>
  C2: when the title field of \<open>POST /items\<close> is absent, empty or white space only, the
  item that is stored has the title \<open>Untitled\<close>, in whichever store it lands: the
  collection when \<open>useMongoDB\<close> is set and \<open>Item.create\<close> succeeds, \<open>memoryItems\<close>
  otherwise. Nothing is stored only when \<open>content.toString()\<close> throws.
\<close>

theorem post_items_blank_title:
  assumes "blank title_field"
  shows "snd (post_items p e s title_field content_field) =
     (case toString (js_or content_field (JStr [])) of
        Inl err \<Rightarrow> s
      | Inr cs \<Rightarrow>
          (if useMongoDB s \<and> \<not> db_fails e \<and> new_oid e \<notin> doc_id ` set (items_collection s)
           then s\<lparr>items_collection := items_collection s @
                    [\<lparr>doc_id = new_oid e, doc_title = lit ''Untitled'', doc_content = cs,
                      doc_createdAt = db_clock e, doc_updatedAt = db_clock e\<rparr>]\<rparr>
           else s\<lparr>memoryItems := memoryItems s @
                    [\<lparr>item_id = memory_id e, title = lit ''Untitled'', content = cs,
                      createdAtIso = toISOString p (new_date1 e),
                      updatedAtIso = toISOString p (new_date2 e)\<rparr>]\<rparr>))"
proof -
  from blank_default [OF assms trim_Untitled lit_nonempty(1)]
  obtain ts where ts: "toString (js_or title_field (JStr (lit ''Untitled''))) = Inr ts"
    and t: "str_or (trim ts) (lit ''Untitled'') = lit ''Untitled''" by blast
  show ?thesis
    by (simp add: post_items_def ts t push_memory_item_def Item_create_def trim_Untitled
          lit_nonempty Let_def split: sum.splits)
qed


theorem post_items_blank_title_witness:
  "blank (JStr (lit ''   ''))
   \<and> snd (post_items example_platform example_env connected_state (JStr (lit ''   '')) (JStr (lit ''eggs'')))
       = connected_state\<lparr>items_collection :=
           [stored_doc,
            \<lparr>doc_id = 0x6725f3b0a1b2c3d4e5f60718, doc_title = lit ''Untitled'', doc_content = lit ''eggs'',
              doc_createdAt = 1730541296800, doc_updatedAt = 1730541296800\<rparr>]\<rparr>"
proof -
  have b: "blank (JStr (lit ''   ''))" by code_simp
  have c: "toString (js_or (JStr (lit ''eggs'')) (JStr [])) = Inr (lit ''eggs'')" by code_simp
  from post_items_blank_title [OF b, of example_platform example_env connected_state "JStr (lit ''eggs'')"]
  show ?thesis using b
    by (simp add: c example_env_def connected_state_def stored_doc_def)
qed


subsection \<open>C3: blank feedback is not stored\<close>

text \<open>
  C3: when the message field of \<open>POST /feedback\<close> is absent, empty or white space only,
  the state after the request is the state before it (no feedback entry is stored, in the
  collection or anywhere else) and the response is the redirect to \<open>/feedback\<close>,
  whatever the name field holds and whether the database answers or not.
\<close>

theorem post_feedback_blank_message:
  assumes "blank message_field"
  shows "post_feedback e s name_field message_field = (Redirect (lit ''/feedback''), s)"
proof -
  from blank_empty_default [OF assms]
  obtain ms where "toString (js_or message_field (JStr [])) = Inr ms" and "trim ms = []" by blast
  then show ?thesis by (simp add: post_feedback_def)
qed


theorem post_feedback_blank_message_witness:
  "blank (JStr [0x20, 0x09, 0x3000])
   \<and> post_feedback example_env connected_state (JStr (lit ''Ada'')) (JStr [0x20, 0x09, 0x3000])
       = (Redirect (lit ''/feedback''), connected_state)"
proof -
  have b: "blank (JStr [0x20, 0x09, 0x3000])" by code_simp
  from post_feedback_blank_message [OF b] b show ?thesis by simp
qed


subsection \<open>C4: an unknown item id is a 404\<close>

text \<open>
  C4: \<open>GET /items/:id\<close> answers with status 404 and the view \<open>404\<close> when the id matches
  no item of the store that answers the request. That store is the collection when
  \<open>useMongoDB\<close> is set and \<open>Item.findById\<close> returns (the id casts to an ObjectId and the
  database answers), and \<open>memoryItems\<close> otherwise: when \<open>useMongoDB\<close> is not set, and in
  the \<open>catch\<close> branch.
\<close>

theorem get_item_missing:
  assumes "if useMongoDB s \<and> \<not> db_fails e \<and> castObjectId p i \<noteq> None
           then \<forall>d\<in>set (items_collection s). castObjectId p i \<noteq> Some (doc_id d)
           else \<forall>it\<in>set (memoryItems s). item_id it \<noteq> i"
  shows "get_item p e s url i = (Render 404 (lit ''404'') (lit ''Not Found'') (Url url), s)"
proof (cases "useMongoDB s \<and> \<not> db_fails e \<and> castObjectId p i \<noteq> None")
  case True
  then obtain k where k: "castObjectId p i = Some k" by blast
  with True assms have "find (\<lambda>d. doc_id d = k) (items_collection s) = None"
    by (auto simp: find_None_iff)
  with True k show ?thesis by (simp add: get_item_def Item_findById_def not_found_def)
next
  case False
  with assms have "find (\<lambda>it. item_id it = i) (memoryItems s) = None"
    by (auto simp: find_None_iff)
  with False show ?thesis
    by (auto simp: get_item_def Item_findById_def show_memory_item_def not_found_def
             split: option.splits)
qed


theorem get_item_missing_witness:
  "useMongoDB connected_state \<and> \<not> db_fails example_env
   \<and> castObjectId example_platform (lit ''507f1f77bcf86cd7994390ff'') = Some 0x507f1f77bcf86cd7994390ff
   \<and> map doc_id (items_collection connected_state) = [0x507f1f77bcf86cd799439011]
   \<and> get_item example_platform example_env connected_state (lit ''/items/507f1f77bcf86cd7994390ff'')
        (lit ''507f1f77bcf86cd7994390ff'')
       = (Render 404 (lit ''404'') (lit ''Not Found'') (Url (lit ''/items/507f1f77bcf86cd7994390ff'')),
          connected_state)"
proof -
  have c: "castObjectId example_platform (lit ''507f1f77bcf86cd7994390ff'') = Some 0x507f1f77bcf86cd7994390ff"
    by code_simp
  have h: "useMongoDB connected_state \<and> \<not> db_fails example_env
     \<and> map doc_id (items_collection connected_state) = [0x507f1f77bcf86cd799439011]"
    by (simp add: connected_state_def example_env_def stored_doc_def)
  then have "\<forall>d\<in>set (items_collection connected_state). doc_id d \<noteq> 0x507f1f77bcf86cd7994390ff"
    by (simp add: connected_state_def stored_doc_def)
  from get_item_missing [of connected_state example_env example_platform "lit ''507f1f77bcf86cd7994390ff''"
      "lit ''/items/507f1f77bcf86cd7994390ff''"] c h this
  show ?thesis by auto
qed


subsection \<open>C5: feedback is append-only\<close>

text \<open>
  C5: whatever the request, the feedback entries stored before it are still there after
  it, unchanged and in place: the collection before is a prefix of the collection after,
  and \<open>memoryFeedback\<close> is never written.
\<close>

theorem feedback_append_only:
  "prefix (feedback_collection s) (feedback_collection (snd (handle p e rq s)))
   \<and> memoryFeedback (snd (handle p e rq s)) = memoryFeedback s"
  using handle_frame [of p e rq s] by simp


subsection \<open>C6: the health check\<close>

text \<open>
  C6: \<open>GET /health\<close> answers 200 with the body \<open>OK\<close> in every state (\<open>useMongoDB\<close>
  set or not) and with every reading of the surroundings (the database answering or not),
  and changes nothing.
\<close>

theorem health_always_ok:
  "handle p e \<lparr>originalUrl = url, route = GetHealth\<rparr> s = (Send 200 (lit ''OK''), s)"
  by (simp add: handle_def get_health_def)


subsection \<open>C8: a blank name is stored as Anonymous\<close>

text \<open>
  C8: when \<open>POST /feedback\<close> carries a message that is not blank after trimming and a name
  that is absent, empty or white space only, the entry \<open>Feedback.create\<close> stores has the
  name \<open>Anonymous\<close> (and the trimmed message). When \<open>Feedback.create\<close> is rejected,
  nothing is stored and the error leaves the handler.
\<close>

theorem post_feedback_blank_name:
  assumes "blank name_field"
    and "toString (js_or message_field (JStr [])) = Inr ms"
    and "trim ms \<noteq> []"
  shows "post_feedback e s name_field message_field =
     (if \<not> db_fails e \<and> new_oid e \<notin> fb_id ` set (feedback_collection s)
      then (Redirect (lit ''/feedback''),
            s\<lparr>feedback_collection := feedback_collection s @
                 [\<lparr>fb_id = new_oid e, fb_name = lit ''Anonymous'', fb_message = trim ms,
                   fb_createdAt = db_clock e, fb_updatedAt = db_clock e\<rparr>]\<rparr>)
      else (Uncaught (if db_fails e then DbError else DuplicateKey), s))"
proof -
  from blank_default [OF assms(1) trim_Anonymous lit_nonempty(2)]
  obtain ns where ns: "toString (js_or name_field (JStr (lit ''Anonymous''))) = Inr ns"
    and n: "str_or (trim ns) (lit ''Anonymous'') = lit ''Anonymous''" by blast
  show ?thesis
    using assms(3)
    by (simp add: post_feedback_def assms(2) ns n Feedback_create_def trim_idem trim_Anonymous Let_def)
qed


theorem post_feedback_blank_name_witness:
  "blank JUndefined
   \<and> toString (js_or (JStr (lit '' hello '')) (JStr [])) = Inr (lit '' hello '')
   \<and> trim (lit '' hello '') = lit ''hello''
   \<and> post_feedback example_env connected_state JUndefined (JStr (lit '' hello ''))
       = (Redirect (lit ''/feedback''),
          connected_state\<lparr>feedback_collection :=
            [stored_feedback,
             \<lparr>fb_id = 0x6725f3b0a1b2c3d4e5f60718, fb_name = lit ''Anonymous'', fb_message = lit ''hello'',
               fb_createdAt = 1730541296800, fb_updatedAt = 1730541296800\<rparr>]\<rparr>)"
proof -
  have b: "blank JUndefined" by code_simp
  have m: "toString (js_or (JStr (lit '' hello '')) (JStr [])) = Inr (lit '' hello '')" by code_simp
  have t: "trim (lit '' hello '') = lit ''hello''" by code_simp
  have n: "trim (lit '' hello '') \<noteq> []" by code_simp
  from post_feedback_blank_name [OF b m n, of example_env connected_state]
  show ?thesis using b m t
    by (simp add: example_env_def connected_state_def stored_feedback_def)
qed


subsection \<open>C9: an update with a blank title\<close>

text \<open>
  When the title of \<open>PUT /items/:id\<close> is absent, empty or white space only, the handler
  passes \<open>title: undefined\<close> in \<open>$set\<close>. Where the update reaches a document of the
  collection (the id casts to its ObjectId and the database answers), the document found
  under the id afterwards has the title it had and the submitted content, and the response
  redirects to the item.
\<close>

lemma put_item_blank_title_in_collection:
  assumes "blank title_field"
    and "toString (js_or content_field (JStr [])) = Inr cs"
    and "castObjectId p i = Some k"
    and "\<not> db_fails e"
    and "find (\<lambda>d. doc_id d = k) (items_collection s) = Some d"
  shows "fst (put_item p e s url i title_field content_field) = Redirect (lit ''/items/'' @ oidToString p k)
     \<and> find (\<lambda>d. doc_id d = k) (items_collection (snd (put_item p e s url i title_field content_field)))
         = Some (d\<lparr>doc_content := cs, doc_updatedAt := db_clock e\<rparr>)
     \<and> doc_title (d\<lparr>doc_content := cs, doc_updatedAt := db_clock e\<rparr>) = doc_title d"
proof -
  from blank_empty_default [OF assms(1)]
  obtain ts where ts: "toString (js_or title_field (JStr [])) = Inr ts" and t: "trim ts = []" by blast
  from assms(5) have dk: "doc_id d = k" by (auto dest: find_Some_iff [THEN iffD1])
  let ?d' = "d\<lparr>doc_content := cs, doc_updatedAt := db_clock e\<rparr>"
  have upd: "Item_findByIdAndUpdate p e (items_collection s) i None cs
      = Inr (Some ?d', replace_first (\<lambda>d. doc_id d = k) ?d' (items_collection s))"
    using assms(3,4,5) by (simp add: Item_findByIdAndUpdate_def Let_def)
  have "find (\<lambda>d. doc_id d = k) (replace_first (\<lambda>d. doc_id d = k) ?d' (items_collection s)) = Some ?d'"
    using assms(5) dk by (simp add: find_replace_first)
  then show ?thesis using dk by (simp add: put_item_def ts t assms(2) upd)
qed


text \<open>
  C9 says this of every \<open>PUT /items/:id\<close> with a blank title that targets an existing item.
  The handler has no memory branch and no \<open>try\<close>, unlike \<open>POST /items\<close> and
  \<open>GET /items/:id\<close>: for an item that \<open>POST /items\<close> stored in \<open>memoryItems\<close> the id does not
  cast to an ObjectId, whether the database answers or not, and for a stored document
  during an outage the call is rejected. In both cases the error leaves the handler and
  the content of the item is not set.
\<close>

theorem put_item_leaves_item_untouched:
  "\<not> useMongoDB memory_state
   \<and> memoryItems memory_state = [first_item]
   \<and> item_id first_item = lit ''1730541296789-4fzyo8''
   \<and> blank (JStr [])
   \<and> put_item example_platform outage_env memory_state (lit ''/items/1730541296789-4fzyo8'')
        (lit ''1730541296789-4fzyo8'') (JStr []) (JStr (lit ''bread''))
       = (Uncaught CastError, memory_state)
   \<and> put_item example_platform example_env memory_state (lit ''/items/1730541296789-4fzyo8'')
        (lit ''1730541296789-4fzyo8'') (JStr []) (JStr (lit ''bread''))
       = (Uncaught CastError, memory_state)
   \<and> items_collection connected_state = [stored_doc]
   \<and> castObjectId example_platform (lit ''507f1f77bcf86cd799439011'') = Some (doc_id stored_doc)
   \<and> put_item example_platform outage_env connected_state (lit ''/items/507f1f77bcf86cd799439011'')
        (lit ''507f1f77bcf86cd799439011'') (JStr []) (JStr (lit ''bread''))
       = (Uncaught DbError, connected_state)"
  by code_simp


subsection \<open>C10: create, then fetch, in memory\<close>

text \<open>
  C10 says that in memory mode every \<open>POST /items\<close> appends one item under a fresh id and
  that a later \<open>GET\<close> of that id, with no delete in between, renders that item. Three runs
  where it does not. The id is built from the clock and six digits of a random number, and
  nothing checks it against the ids in use: a second request in the same millisecond whose
  random number starts with the same six digits gets the id of the first, and
  \<open>memoryItems.find\<close> then returns the first item, not the one just appended. A JSON body
  whose title is an object with an own property \<open>toString\<close> makes \<open>title.toString()\<close>
  throw, and nothing is appended. And a request in between whose error leaves its handler
  (here \<open>GET /feedback\<close> without a database) ends the process, and \<open>memoryItems\<close> with it.
\<close>

theorem create_then_fetch_counterexamples:
  "\<not> useMongoDB memory_state
   \<and> post_items example_platform colliding_env memory_state (JStr (lit ''Second'')) (JStr (lit ''two''))
       = (Redirect (lit ''/items/1730541296789-4fzyo8''), memory_state\<lparr>memoryItems := [first_item, second_item]\<rparr>)
   \<and> get_item example_platform example_env (memory_state\<lparr>memoryItems := [first_item, second_item]\<rparr>)
        (lit ''/items/1730541296789-4fzyo8'') (lit ''1730541296789-4fzyo8'')
       = (Render 200 (lit ''items/show'') (lit ''First'') (ItemData first_item),
          memory_state\<lparr>memoryItems := [first_item, second_item]\<rparr>)
   \<and> first_item \<noteq> second_item
   \<and> post_items example_platform example_env initial_state
        (JObj [(lit ''toString'', JNum True (lit ''1''))]) (JStr (lit ''two''))
       = (Uncaught TypeError, initial_state)
   \<and> serve example_platform [(outage_env, \<lparr>originalUrl = lit ''/feedback'', route = GetFeedback\<rparr>)]
        memory_state
       = None"
  by code_simp


text \<open>
  C10 as amended: in memory mode, when the title and the content convert to strings and the
  generated id is not the id of an item already in \<open>memoryItems\<close>, \<open>POST /items\<close> appends
  exactly one item, under that id, and redirects to it; a later \<open>GET /items/:id\<close> with that
  id, served by the same process after requests none of which is a delete, renders that
  item.
\<close>

theorem create_then_fetch:
  assumes "\<not> useMongoDB s"
    and "toString (js_or title_field (JStr (lit ''Untitled''))) = Inr ts"
    and "toString (js_or content_field (JStr [])) = Inr cs"
    and "memory_id e \<notin> item_id ` set (memoryItems s)"
    and "\<forall>x\<in>set between. \<forall>i. route (snd x) \<noteq> DeleteItem i"
    and "serve p between (snd (post_items p e s title_field content_field)) = Some s2"
  shows "let item = \<lparr>item_id = memory_id e, title = str_or (trim ts) (lit ''Untitled''),
                      content = cs, createdAtIso = toISOString p (new_date1 e),
                      updatedAtIso = toISOString p (new_date2 e)\<rparr>
         in post_items p e s title_field content_field
              = (Redirect (lit ''/items/'' @ memory_id e), s\<lparr>memoryItems := memoryItems s @ [item]\<rparr>)
            \<and> get_item p e' s2 url (memory_id e)
                = (Render 200 (lit ''items/show'') (title item) (ItemData item), s2)"
proof -
  define item where "item = \<lparr>item_id = memory_id e, title = str_or (trim ts) (lit ''Untitled''),
                      content = cs, createdAtIso = toISOString p (new_date1 e),
                      updatedAtIso = toISOString p (new_date2 e)\<rparr>"
  define s1 where "s1 = s\<lparr>memoryItems := memoryItems s @ [item]\<rparr>"
  have post: "post_items p e s title_field content_field = (Redirect (lit ''/items/'' @ memory_id e), s1)"
    using assms(1) by (simp add: post_items_def assms(2,3) push_memory_item_def s1_def item_def Let_def)
  have "\<forall>x\<in>set (memoryItems s). item_id x \<noteq> memory_id e"
    using assms(4) by force
  then have "find (\<lambda>it. item_id it = memory_id e) (memoryItems s1) = Some item"
    by (simp add: s1_def item_def find_append_fresh)
  moreover from assms(6) post have "serve p between s1 = Some s2" by simp
  from serve_frame [OF this]
  obtain new where "memoryItems s2 = memoryItems s1 @ new" and u: "useMongoDB s2 = useMongoDB s1"
    by (auto simp: prefix_def)
  ultimately have "find (\<lambda>it. item_id it = memory_id e) (memoryItems s2) = Some item"
    by (simp add: find_append_Some)
  moreover have "\<not> useMongoDB s2" using u assms(1) by (simp add: s1_def)
  ultimately have "get_item p e' s2 url (memory_id e)
      = (Render 200 (lit ''items/show'') (title item) (ItemData item), s2)"
    by (simp add: get_item_def show_memory_item_def)
  with post show ?thesis unfolding item_def s1_def Let_def by simp
qed


theorem create_then_fetch_witness:
  "\<not> useMongoDB initial_state
   \<and> toString (js_or (JStr (lit '' Milk '')) (JStr (lit ''Untitled''))) = Inr (lit '' Milk '')
   \<and> toString (js_or JUndefined (JStr [])) = Inr []
   \<and> memory_id example_env = lit ''1730541296789-4fzyo8''
   \<and> memoryItems initial_state = []
   \<and> map (route \<circ> snd)
        [(later_env, \<lparr>originalUrl = lit ''/items'', route = PostItems (JStr (lit ''Bread'')) JUndefined\<rparr>),
         (example_env, \<lparr>originalUrl = lit ''/items'', route = GetItems\<rparr>),
         (example_env, \<lparr>originalUrl = lit ''/health'', route = GetHealth\<rparr>)]
       = [PostItems (JStr (lit ''Bread'')) JUndefined, GetItems, GetHealth]
   \<and> post_items example_platform example_env initial_state (JStr (lit '' Milk '')) JUndefined
       = (Redirect (lit ''/items/1730541296789-4fzyo8''),
          initial_state\<lparr>memoryItems :=
            [\<lparr>item_id = lit ''1730541296789-4fzyo8'', title = lit ''Milk'', content = [],
              createdAtIso = lit ''2024-11-02T09:54:56.789Z'',
              updatedAtIso = lit ''2024-11-02T09:54:56.790Z''\<rparr>]\<rparr>)
   \<and> serve example_platform
        [(later_env, \<lparr>originalUrl = lit ''/items'', route = PostItems (JStr (lit ''Bread'')) JUndefined\<rparr>),
         (example_env, \<lparr>originalUrl = lit ''/items'', route = GetItems\<rparr>),
         (example_env, \<lparr>originalUrl = lit ''/health'', route = GetHealth\<rparr>)]
        (snd (post_items example_platform example_env initial_state (JStr (lit '' Milk '')) JUndefined))
       = Some (initial_state\<lparr>memoryItems :=
            [\<lparr>item_id = lit ''1730541296789-4fzyo8'', title = lit ''Milk'', content = [],
              createdAtIso = lit ''2024-11-02T09:54:56.789Z'',
              updatedAtIso = lit ''2024-11-02T09:54:56.790Z''\<rparr>,
             \<lparr>item_id = lit ''1730541297000-9k2m7q'', title = lit ''Bread'', content = [],
              createdAtIso = lit ''2024-11-02T09:54:57.000Z'',
              updatedAtIso = lit ''2024-11-02T09:54:57.000Z''\<rparr>]\<rparr>)
   \<and> get_item example_platform outage_env
        (initial_state\<lparr>memoryItems :=
            [\<lparr>item_id = lit ''1730541296789-4fzyo8'', title = lit ''Milk'', content = [],
              createdAtIso = lit ''2024-11-02T09:54:56.789Z'',
              updatedAtIso = lit ''2024-11-02T09:54:56.790Z''\<rparr>,
             \<lparr>item_id = lit ''1730541297000-9k2m7q'', title = lit ''Bread'', content = [],
              createdAtIso = lit ''2024-11-02T09:54:57.000Z'',
              updatedAtIso = lit ''2024-11-02T09:54:57.000Z''\<rparr>]\<rparr>)
        (lit ''/items/1730541296789-4fzyo8'') (lit ''1730541296789-4fzyo8'')
       = (Render 200 (lit ''items/show'') (lit ''Milk'')
            (ItemData \<lparr>item_id = lit ''1730541296789-4fzyo8'', title = lit ''Milk'', content = [],
              createdAtIso = lit ''2024-11-02T09:54:56.789Z'',
              updatedAtIso = lit ''2024-11-02T09:54:56.790Z''\<rparr>),
          initial_state\<lparr>memoryItems :=
            [\<lparr>item_id = lit ''1730541296789-4fzyo8'', title = lit ''Milk'', content = [],
              createdAtIso = lit ''2024-11-02T09:54:56.789Z'',
              updatedAtIso = lit ''2024-11-02T09:54:56.790Z''\<rparr>,
             \<lparr>item_id = lit ''1730541297000-9k2m7q'', title = lit ''Bread'', content = [],
              createdAtIso = lit ''2024-11-02T09:54:57.000Z'',
              updatedAtIso = lit ''2024-11-02T09:54:57.000Z''\<rparr>]\<rparr>)"
  (is "?u \<and> ?t \<and> ?c \<and> ?i \<and> ?m \<and> ?r \<and> ?post \<and> ?serve \<and> ?get")
proof -
  let ?between =
    "[(later_env, \<lparr>originalUrl = lit ''/items'', route = PostItems (JStr (lit ''Bread'')) JUndefined\<rparr>),
      (example_env, \<lparr>originalUrl = lit ''/items'', route = GetItems\<rparr>),
      (example_env, \<lparr>originalUrl = lit ''/health'', route = GetHealth\<rparr>)]"
  have u: ?u by (simp add: initial_state_def)
  have t: ?t by code_simp
  have c: ?c by code_simp
  have i: ?i by code_simp
  have m: ?m by (simp add: initial_state_def)
  have r: ?r by simp
  have n: "memory_id example_env \<notin> item_id ` set (memoryItems initial_state)"
    by (simp add: m)
  have d: "\<forall>x\<in>set ?between. \<forall>i. route (snd x) \<noteq> DeleteItem i" by simp
  have s: ?serve by code_simp
  have tt: "str_or (trim (lit '' Milk '')) (lit ''Untitled'') = lit ''Milk''" by code_simp
  have d1: "toISOString example_platform (new_date1 example_env) = lit ''2024-11-02T09:54:56.789Z''"
    by code_simp
  have d2: "toISOString example_platform (new_date2 example_env) = lit ''2024-11-02T09:54:56.790Z''"
    by code_simp
  from create_then_fetch [OF u t c n d s, where e' = outage_env
      and url = "lit ''/items/1730541296789-4fzyo8''"]
  have "?post \<and> ?get"
    by (simp add: i tt d1 d2 m Let_def) (simp add: lit_def)
  with u t c i m r s show ?thesis by blast
qed


end
